theory Spec2Isabelle
  imports Main
begin

section \<open>JavaScript values used by the pages\<close>

text \<open>
  The repository under study is the web client of the search service: three React
  pages (search, ingest, settings), each present in an older \<^verbatim>\<open>.jsx\<close> and a newer
  \<^verbatim>\<open>.tsx\<close> version. A JavaScript string is modelled as a \<^typ>\<open>string\<close> of
  8-bit code units (Latin-1); code units above U+00FF are not represented.
\<close>

text \<open>
  \<^verbatim>\<open>String.prototype.trim\<close> strips WhiteSpace and LineTerminator code units from both
  ends. Of these, TAB, LF, VT, FF, CR, SPACE and NBSP lie in the 8-bit range.
\<close>

definition js_whitespace :: "char \<Rightarrow> bool" where
  "js_whitespace c = (of_char c \<in> {9, 10, 11, 12, 13, 32, 160 :: nat})"

definition trim :: "string \<Rightarrow> string" where
  "trim s = rev (dropWhile js_whitespace (rev (dropWhile js_whitespace s)))"

text \<open>Decimal rendering of a non-negative integer inside a template literal.\<close>

definition digit_char :: "nat \<Rightarrow> char" where
  "digit_char d = char_of (48 + d)"

fun show_nat :: "nat \<Rightarrow> string" where
  "show_nat n = (if n < 10 then [digit_char n] else show_nat (n div 10) @ [digit_char (n mod 10)])"

text \<open>A property read from a response body that may be absent renders as \<^verbatim>\<open>undefined\<close>.\<close>

definition show_count :: "nat option \<Rightarrow> string" where
  "show_count c = (case c of None \<Rightarrow> ''undefined'' | Some n \<Rightarrow> show_nat n)"

definition show_bool :: "bool \<Rightarrow> string" where
  "show_bool b = (if b then ''true'' else ''false'')"

section \<open>\<^verbatim>\<open>JSON.parse\<close> as a recogniser\<close>

text \<open>
  The ingest page calls \<^verbatim>\<open>JSON.parse(metadata)\<close> and discards the value: only whether
  the call throws matters. The model is a recogniser for the JSON grammar (ECMA-404) that
  returns the kind of the top-level value, or \<^const>\<open>None\<close> where \<^verbatim>\<open>JSON.parse\<close> throws
  a SyntaxError. It runs in two passes, each a single left-to-right scan: a lexer (a finite
  automaton over the characters) and a parser (a pushdown automaton over the tokens).
\<close>

datatype json_kind = KObject | KArray | KString | KNumber | KBool | KNull

datatype token = LBrace | RBrace | LBracket | RBracket | Colon | Comma | Scalar json_kind

datatype num_state = NMinus | NZero | NInt | NDot | NFrac | NExp | NExpSign | NExpDigits

datatype lex_state = LStart | LStr | LEsc | LHex nat | LNum num_state | LLit string json_kind

definition json_ws :: "char \<Rightarrow> bool" where
  "json_ws c = (of_char c \<in> {9, 10, 13, 32 :: nat})"

definition is_digit :: "char \<Rightarrow> bool" where
  "is_digit c = (48 \<le> (of_char c :: nat) \<and> (of_char c :: nat) \<le> 57)"

definition is_hex :: "char \<Rightarrow> bool" where
  "is_hex c = (is_digit c \<or> c \<in> set ''abcdefABCDEF'')"

definition is_exp :: "char \<Rightarrow> bool" where
  "is_exp c = (c = CHR ''e'' \<or> c = CHR ''E'')"

text \<open>One character of a number: the next state, or \<^const>\<open>None\<close> when the character
  does not continue the number.\<close>

fun num_step :: "num_state \<Rightarrow> char \<Rightarrow> num_state option" where
  "num_step NMinus c = (if c = CHR ''0'' then Some NZero else if is_digit c then Some NInt else None)"
| "num_step NZero c = (if c = CHR ''.'' then Some NDot else if is_exp c then Some NExp else None)"
| "num_step NInt c = (if is_digit c then Some NInt else if c = CHR ''.'' then Some NDot
                      else if is_exp c then Some NExp else None)"
| "num_step NDot c = (if is_digit c then Some NFrac else None)"
| "num_step NFrac c = (if is_digit c then Some NFrac else if is_exp c then Some NExp else None)"
| "num_step NExp c = (if c = CHR ''+'' \<or> c = CHR ''-'' then Some NExpSign
                      else if is_digit c then Some NExpDigits else None)"
| "num_step NExpSign c = (if is_digit c then Some NExpDigits else None)"
| "num_step NExpDigits c = (if is_digit c then Some NExpDigits else None)"

definition num_final :: "num_state \<Rightarrow> bool" where
  "num_final ns = (ns \<in> {NZero, NInt, NFrac, NExpDigits})"

text \<open>The lexer outside any token. Tokens are accumulated in reverse.\<close>

definition lex_start :: "token list \<Rightarrow> char \<Rightarrow> (lex_state \<times> token list) option" where
  "lex_start ts c =
     (if json_ws c then Some (LStart, ts)
      else if c = CHR ''{'' then Some (LStart, LBrace # ts)
      else if c = CHR ''}'' then Some (LStart, RBrace # ts)
      else if c = CHR ''['' then Some (LStart, LBracket # ts)
      else if c = CHR '']'' then Some (LStart, RBracket # ts)
      else if c = CHR '':'' then Some (LStart, Colon # ts)
      else if c = CHR '','' then Some (LStart, Comma # ts)
      else if c = CHR 0x22 then Some (LStr, ts)
      else if c = CHR ''-'' then Some (LNum NMinus, ts)
      else if c = CHR ''0'' then Some (LNum NZero, ts)
      else if is_digit c then Some (LNum NInt, ts)
      else if c = CHR ''t'' then Some (LLit ''rue'' KBool, ts)
      else if c = CHR ''f'' then Some (LLit ''alse'' KBool, ts)
      else if c = CHR ''n'' then Some (LLit ''ull'' KNull, ts)
      else None)"

fun lex_step :: "lex_state \<Rightarrow> token list \<Rightarrow> char \<Rightarrow> (lex_state \<times> token list) option" where
  "lex_step LStart ts c = lex_start ts c"
| "lex_step LStr ts c =
     (if c = CHR 0x22 then Some (LStart, Scalar KString # ts)
      else if c = CHR 0x5C then Some (LEsc, ts)
      else if (of_char c :: nat) < 32 then None
      else Some (LStr, ts))"
| "lex_step LEsc ts c =
     (if c \<in> set [CHR 0x22, CHR 0x5C, CHR ''/'', CHR ''b'', CHR ''f'', CHR ''n'', CHR ''r'', CHR ''t'']
      then Some (LStr, ts)
      else if c = CHR ''u'' then Some (LHex 4, ts)
      else None)"
| "lex_step (LHex n) ts c =
     (if is_hex c then Some (if n \<le> 1 then LStr else LHex (n - 1), ts) else None)"
| "lex_step (LNum ns) ts c =
     (case num_step ns c of
        Some ns' \<Rightarrow> Some (LNum ns', ts)
      | None \<Rightarrow> if num_final ns then lex_start (Scalar KNumber # ts) c else None)"
| "lex_step (LLit [] k) ts c = None"
| "lex_step (LLit (r # rs) k) ts c =
     (if c \<noteq> r then None
      else if rs = [] then Some (LStart, Scalar k # ts)
      else Some (LLit rs k, ts))"

fun lex_run :: "lex_state \<Rightarrow> token list \<Rightarrow> string \<Rightarrow> (lex_state \<times> token list) option" where
  "lex_run st ts [] = Some (st, ts)"
| "lex_run st ts (c # cs) =
     (case lex_step st ts c of None \<Rightarrow> None | Some (st', ts') \<Rightarrow> lex_run st' ts' cs)"

definition lex :: "string \<Rightarrow> token list option" where
  "lex s =
     (case lex_run LStart [] s of
        None \<Rightarrow> None
      | Some (LStart, ts) \<Rightarrow> Some (rev ts)
      | Some (LNum ns, ts) \<Rightarrow> if num_final ns then Some (rev (Scalar KNumber # ts)) else None
      | Some (_, ts) \<Rightarrow> None)"

text \<open>
  The parser: what is expected next, and the stack of containers that are open
  (\<^const>\<open>True\<close> for an object, \<^const>\<open>False\<close> for an array).
\<close>

datatype expect = PValue | PArrFirst | PObjFirst | PObjKey | PColon | PAfter

fun parse_step :: "expect \<Rightarrow> bool list \<Rightarrow> token \<Rightarrow> (expect \<times> bool list) option" where
  "parse_step PValue st (Scalar k) = Some (PAfter, st)"
| "parse_step PValue st LBracket = Some (PArrFirst, False # st)"
| "parse_step PValue st LBrace = Some (PObjFirst, True # st)"
| "parse_step PArrFirst st (Scalar k) = Some (PAfter, st)"
| "parse_step PArrFirst st LBracket = Some (PArrFirst, False # st)"
| "parse_step PArrFirst st LBrace = Some (PObjFirst, True # st)"
| "parse_step PArrFirst (b # st) RBracket = Some (PAfter, st)"
| "parse_step PObjFirst st (Scalar KString) = Some (PColon, st)"
| "parse_step PObjFirst (b # st) RBrace = Some (PAfter, st)"
| "parse_step PObjKey st (Scalar KString) = Some (PColon, st)"
| "parse_step PColon st Colon = Some (PValue, st)"
| "parse_step PAfter (False # st) Comma = Some (PValue, False # st)"
| "parse_step PAfter (False # st) RBracket = Some (PAfter, st)"
| "parse_step PAfter (True # st) Comma = Some (PObjKey, True # st)"
| "parse_step PAfter (True # st) RBrace = Some (PAfter, st)"
| "parse_step _ _ _ = None"

fun parse_run :: "expect \<Rightarrow> bool list \<Rightarrow> token list \<Rightarrow> bool" where
  "parse_run e st [] = (e = PAfter \<and> st = [])"
| "parse_run e st (t # ts) =
     (case parse_step e st t of None \<Rightarrow> False | Some (e', st') \<Rightarrow> parse_run e' st' ts)"

fun top_kind :: "token \<Rightarrow> json_kind" where
  "top_kind LBrace = KObject"
| "top_kind LBracket = KArray"
| "top_kind (Scalar k) = k"
| "top_kind _ = KNull"

definition JSON_parse :: "string \<Rightarrow> json_kind option" where
  "JSON_parse s =
     (case lex s of
        None \<Rightarrow> None
      | Some [] \<Rightarrow> None
      | Some (t # ts) \<Rightarrow> if parse_run PValue [] (t # ts) then Some (top_kind t) else None)"

section \<open>Requests, responses and effects\<close>

text \<open>
  A request body built with \<^verbatim>\<open>JSON.stringify\<close> from an object literal is a JSON value
  whose object members keep the order of the literal; a \<^verbatim>\<open>FormData\<close> body is the list of
  its \<^verbatim>\<open>append\<close> calls. URLs are written relative to \<^verbatim>\<open>API_BASE\<close>.
\<close>

datatype json = JNull | JBool bool | JNum int | JStr string | JObj "(string \<times> json) list"

datatype upload = Upload string

datatype form_value = FormString string | FormFile upload

datatype request =
    Get string
  | PostForm string "(string \<times> form_value) list"
  | PostJson string json
  | Post string

text \<open>
  What \<^verbatim>\<open>await fetch(...)\<close> gives: a response with \<^verbatim>\<open>ok\<close> set and its parsed body, a
  response with \<^verbatim>\<open>ok\<close> unset (status, \<^verbatim>\<open>statusText\<close> and the \<^verbatim>\<open>detail\<close> of its
  error body, empty when absent), or a rejected promise with the error's message.
\<close>

datatype 'a response = Ok 'a | NotOk nat string string | Rejected string

text \<open>
  A handler is a closure created by one render of its component: the state variables it
  reads are the constants of that render, and a setter call does not change them; it
  schedules the value for the next render. A handler is therefore modelled as a function
  from the state of its render (and the responses the server gives) to the list of its
  effects in program order: setter calls, requests and timers. Reads go to the
  function's argument; \<^verbatim>\<open>run\<close> below applies the setter calls and gives the state the
  component has afterwards. Toasts and console output are left out.
\<close>

datatype 'set effect = Set 'set | Fetch request | SetTimeout nat

fun requests :: "'set effect list \<Rightarrow> request list" where
  "requests [] = []"
| "requests (Fetch r # es) = r # requests es"
| "requests (_ # es) = requests es"

section \<open>The ingest page\<close>

text \<open>
  \<^verbatim>\<open>IngestPage\<close> of \<^verbatim>\<open>src/unnamed/part_001\<close> (the \<^verbatim>\<open>.jsx\<close> version) and of
  \<^verbatim>\<open>src/frontend/components/navigation.tsx\<close> (the \<^verbatim>\<open>.tsx\<close> version, second half of
  the file). Both keep the same nine state variables.
\<close>

record ingest_page =
  ingest_docId :: string
  ingest_title :: string
  ingest_text :: string
  ingest_file :: "upload option"
  ingest_metadata :: string
  ingest_sync :: bool
  ingest_loading :: bool
  ingest_message :: string
  ingest_error :: string

datatype ingest_set =
    SetDocId string
  | SetTitle string
  | SetText string
  | SetFile "upload option"
  | SetMetadata string
  | SetSync bool
  | SetLoading bool
  | SetMessage string
  | SetError string

fun ingest_apply :: "ingest_set \<Rightarrow> ingest_page \<Rightarrow> ingest_page" where
  "ingest_apply (SetDocId v) s = s\<lparr>ingest_docId := v\<rparr>"
| "ingest_apply (SetTitle v) s = s\<lparr>ingest_title := v\<rparr>"
| "ingest_apply (SetText v) s = s\<lparr>ingest_text := v\<rparr>"
| "ingest_apply (SetFile v) s = s\<lparr>ingest_file := v\<rparr>"
| "ingest_apply (SetMetadata v) s = s\<lparr>ingest_metadata := v\<rparr>"
| "ingest_apply (SetSync v) s = s\<lparr>ingest_sync := v\<rparr>"
| "ingest_apply (SetLoading v) s = s\<lparr>ingest_loading := v\<rparr>"
| "ingest_apply (SetMessage v) s = s\<lparr>ingest_message := v\<rparr>"
| "ingest_apply (SetError v) s = s\<lparr>ingest_error := v\<rparr>"

definition ingest_effect :: "ingest_set effect \<Rightarrow> ingest_page \<Rightarrow> ingest_page" where
  "ingest_effect e s = (case e of Set u \<Rightarrow> ingest_apply u s | _ \<Rightarrow> s)"

definition ingest_run :: "ingest_set effect list \<Rightarrow> ingest_page \<Rightarrow> ingest_page" where
  "ingest_run es s = fold ingest_effect es s"

definition ingest_initial :: ingest_page where
  "ingest_initial = \<lparr>ingest_docId = [], ingest_title = [], ingest_text = [], ingest_file = None,
     ingest_metadata = [], ingest_sync = False, ingest_loading = False, ingest_message = [],
     ingest_error = []\<rparr>"

text \<open>The body of a successful \<^verbatim>\<open>POST /ingest\<close> or \<^verbatim>\<open>GET /docs/{doc_id}\<close>: only
  \<^verbatim>\<open>chunk_count\<close> is read.\<close>

record doc_body =
  chunk_count :: "nat option"

definition maxAttempts :: nat where
  "maxAttempts = 10"

definition pollInterval :: nat where
  "pollInterval = 1000"

definition started_message :: "string \<Rightarrow> string" where
  "started_message docId = ''Document '' @ [CHR 0x22] @ docId @ [CHR 0x22] @ '' ingestion started...''"

definition ingested_message :: "string \<Rightarrow> nat option \<Rightarrow> string" where
  "ingested_message docId n =
     ''Document '' @ [CHR 0x22] @ docId @ [CHR 0x22] @ '' ingested successfully with ''
       @ show_count n @ '' chunks''"

definition clearForm :: "ingest_set effect list" where
  "clearForm = [Set (SetDocId []), Set (SetTitle []), Set (SetText []), Set (SetFile None),
     Set (SetMetadata [])]"

text \<open>The \<^verbatim>\<open>FormData\<close> that \<^verbatim>\<open>handleSubmit\<close> builds, in the order of its \<^verbatim>\<open>append\<close>
  calls; an empty string and \<^verbatim>\<open>null\<close> are falsy.\<close>

definition formData :: "ingest_page \<Rightarrow> (string \<times> form_value) list" where
  "formData s =
     [(''doc_id'', FormString (ingest_docId s)), (''sync'', FormString (show_bool (ingest_sync s)))]
     @ (if ingest_title s \<noteq> [] then [(''title'', FormString (ingest_title s))] else [])
     @ (if ingest_text s \<noteq> [] then [(''text'', FormString (ingest_text s))] else [])
     @ (case ingest_file s of Some f \<Rightarrow> [(''file'', FormFile f)] | None \<Rightarrow> [])
     @ (if ingest_metadata s \<noteq> [] then [(''metadata'', FormString (ingest_metadata s))] else [])"

text \<open>
  \<^verbatim>\<open>pollForCompletion\<close> of the \<^verbatim>\<open>.jsx\<close> page: one fetch of the document, and whether
  it is complete. A 404, any other status and a rejected fetch all give \<^verbatim>\<open>false\<close>.
\<close>

definition pollForCompletion :: "string \<Rightarrow> doc_body response \<Rightarrow> ingest_set effect list \<times> bool" where
  "pollForCompletion docId r =
     (case r of
        Ok docData \<Rightarrow>
          ([Fetch (Get (''/docs/'' @ docId)),
            Set (SetMessage (ingested_message docId (chunk_count docData)))], True)
      | NotOk status statusText detail \<Rightarrow> ([Fetch (Get (''/docs/'' @ docId))], False)
      | Rejected msg \<Rightarrow> ([Fetch (Get (''/docs/'' @ docId))], False))"

text \<open>
  \<^verbatim>\<open>poll\<close>: \<open>attempts\<close> is the counter before the increment, and \<open>docs k\<close> is the
  server's answer to the fetch made when the counter was \<open>k\<close>.
\<close>

function poll :: "string \<Rightarrow> (nat \<Rightarrow> doc_body response) \<Rightarrow> nat \<Rightarrow> ingest_set effect list" where
  "poll docId docs attempts =
     (case pollForCompletion docId (docs attempts) of
        (es, completed) \<Rightarrow>
          if completed \<or> attempts + 1 \<ge> maxAttempts then es @ clearForm
          else es @ SetTimeout pollInterval # poll docId docs (attempts + 1))"
  by pat_completeness auto
termination
  by (relation "measure (\<lambda>(docId, docs, attempts). maxAttempts - attempts)") auto

declare poll.simps [simp del]

text \<open>
  \<^verbatim>\<open>handleSubmit\<close>, up to the end of its \<^verbatim>\<open>finally\<close> block. In the asynchronous case it
  sets the 500 ms timer that starts \<^const>\<open>poll\<close>.
\<close>

definition handleSubmit :: "ingest_page \<Rightarrow> doc_body response \<Rightarrow> ingest_set effect list" where
  "handleSubmit s resp =
     (if trim (ingest_docId s) = [] then [Set (SetError ''Document ID is required'')]
      else if ingest_text s = [] \<and> ingest_file s = None
        then [Set (SetError ''Either text content or a file must be provided'')]
      else
        [Set (SetLoading True), Set (SetError []), Set (SetMessage [])]
        @ (if ingest_metadata s \<noteq> [] \<and> JSON_parse (ingest_metadata s) = None
           then [Set (SetError ''Invalid JSON in metadata''), Set (SetLoading False)]
           else
             Fetch (PostForm ''/ingest'' (formData s))
             # (case resp of
                  Rejected msg \<Rightarrow> [Set (SetError msg)]
                | NotOk status statusText detail \<Rightarrow>
                    [Set (SetError (if detail \<noteq> [] then detail else ''HTTP '' @ show_nat status))]
                | Ok data \<Rightarrow>
                    if ingest_sync s
                    then Set (SetMessage (ingested_message (ingest_docId s) (chunk_count data)))
                         # clearForm
                    else [Set (SetMessage (started_message (ingest_docId s))), SetTimeout 500]))
        @ [Set (SetLoading False)])"

text \<open>Whether \<^const>\<open>handleSubmit\<close> has set the timer that starts the polling.\<close>

definition polling_started :: "ingest_page \<Rightarrow> doc_body response \<Rightarrow> bool" where
  "polling_started s resp = (SetTimeout 500 \<in> set (handleSubmit s resp))"

text \<open>A whole submission: the handler, and the polling it has scheduled.\<close>

definition submission ::
  "ingest_page \<Rightarrow> doc_body response \<Rightarrow> (nat \<Rightarrow> doc_body response) \<Rightarrow> ingest_set effect list" where
  "submission s resp docs =
     handleSubmit s resp @ (if polling_started s resp then poll (ingest_docId s) docs 0 else [])"

subsection \<open>The \<^verbatim>\<open>.tsx\<close> version\<close>

text \<open>
  In \<^verbatim>\<open>navigation.tsx\<close> the polling is a function of the component:
  \<^verbatim>\<open>pollForCompletion\<close> sets the 500 ms timer, and its inner \<^verbatim>\<open>poll\<close> fetches, returns
  after a success, and otherwise compares the counter with \<^verbatim>\<open>maxAttempts\<close>.
\<close>

function poll_tsx :: "string \<Rightarrow> (nat \<Rightarrow> doc_body response) \<Rightarrow> nat \<Rightarrow> ingest_set effect list" where
  "poll_tsx docId docs attempts =
     Fetch (Get (''/docs/'' @ docId))
     # (case docs attempts of
          Ok docData \<Rightarrow> Set (SetMessage (ingested_message docId (chunk_count docData))) # clearForm
        | NotOk status statusText detail \<Rightarrow>
            if attempts + 1 < maxAttempts then SetTimeout pollInterval # poll_tsx docId docs (attempts + 1)
            else clearForm
        | Rejected msg \<Rightarrow>
            if attempts + 1 < maxAttempts then SetTimeout pollInterval # poll_tsx docId docs (attempts + 1)
            else clearForm)"
  by pat_completeness auto
termination
  by (relation "measure (\<lambda>(docId, docs, attempts). maxAttempts - attempts)") auto

declare poll_tsx.simps [simp del]

definition pollForCompletion_tsx :: "ingest_set effect list" where
  "pollForCompletion_tsx = [SetTimeout 500]"

definition handleSubmit_tsx :: "ingest_page \<Rightarrow> doc_body response \<Rightarrow> ingest_set effect list" where
  "handleSubmit_tsx s resp =
     (if trim (ingest_docId s) = [] then [Set (SetError ''Document ID is required'')]
      else if ingest_text s = [] \<and> ingest_file s = None
        then [Set (SetError ''Either text content or a file must be provided'')]
      else
        [Set (SetLoading True), Set (SetError []), Set (SetMessage [])]
        @ (if ingest_metadata s \<noteq> [] \<and> JSON_parse (ingest_metadata s) = None
           then [Set (SetError ''Invalid JSON in metadata''), Set (SetLoading False)]
           else
             Fetch (PostForm ''/ingest'' (formData s))
             # (case resp of
                  Ok data \<Rightarrow>
                    if ingest_sync s
                    then Set (SetMessage (ingested_message (ingest_docId s) (chunk_count data)))
                         # clearForm
                    else Set (SetMessage (started_message (ingest_docId s))) # pollForCompletion_tsx
                | NotOk status statusText detail \<Rightarrow>
                    [Set (SetError (if detail \<noteq> [] then detail else ''HTTP '' @ show_nat status))]
                | Rejected msg \<Rightarrow> [Set (SetError msg)]))
        @ [Set (SetLoading False)])"


subsection \<open>The form as a transition system\<close>

text \<open>
  \<^verbatim>\<open>handleFileChange\<close>: the first file of the input, if the user chose one.
\<close>

definition handleFileChange :: "upload option \<Rightarrow> ingest_set effect list" where
  "handleFileChange selectedFile =
     (case selectedFile of Some f \<Rightarrow> [Set (SetFile (Some f)), Set (SetText [])] | None \<Rightarrow> [])"

text \<open>
  What the user can do to the rendered form. Every control carries
  \<^verbatim>\<open>disabled={loading}\<close>; the text area carries \<^verbatim>\<open>disabled={loading || file}\<close>, and a
  disabled control raises no event. A submission reads the state of the render it was
  made in.
\<close>

datatype ingest_event =
    ChangeDocId string
  | ChangeTitle string
  | ChangeFile "upload option"
  | ChangeText string
  | ChangeMetadata string
  | ChangeSync bool
  | Submit "doc_body response" "nat \<Rightarrow> doc_body response"

fun enabled :: "ingest_page \<Rightarrow> ingest_event \<Rightarrow> bool" where
  "enabled s (ChangeText v) = (\<not> (ingest_loading s \<or> ingest_file s \<noteq> None))"
| "enabled s _ = (\<not> ingest_loading s)"

text \<open>
  The effects of an event. Those of a change handler are applied at once (one render);
  those of a submission are asynchronous.
\<close>

fun handler :: "ingest_page \<Rightarrow> ingest_event \<Rightarrow> ingest_set effect list" where
  "handler s (ChangeDocId v) = [Set (SetDocId v)]"
| "handler s (ChangeTitle v) = [Set (SetTitle v)]"
| "handler s (ChangeFile f) = handleFileChange f"
| "handler s (ChangeText v) = [Set (SetText v)]"
| "handler s (ChangeMetadata v) = [Set (SetMetadata v)]"
| "handler s (ChangeSync v) = [Set (SetSync v)]"
| "handler s (Submit resp docs) = submission s resp docs"

fun is_submit :: "ingest_event \<Rightarrow> bool" where
  "is_submit (Submit resp docs) = True"
| "is_submit _ = False"

text \<open>
  A configuration is the state of the component and, for every submission still running,
  the effects it has yet to perform. A submission awaits the network and timers, so the
  user's events and the effects of other submissions can fall between any two of its
  effects; the relation allows every such interleaving.
\<close>

inductive ingest_step ::
  "ingest_page \<times> ingest_set effect list list \<Rightarrow> ingest_page \<times> ingest_set effect list list \<Rightarrow> bool" where
  change: "enabled s ev \<Longrightarrow> \<not> is_submit ev \<Longrightarrow>
     ingest_step (s, pending) (ingest_run (handler s ev) s, pending)"
| submit: "enabled s ev \<Longrightarrow> is_submit ev \<Longrightarrow>
     ingest_step (s, pending) (s, handler s ev # pending)"
| progress: "ingest_step (s, before @ (e # es) # after) (ingest_effect e s, before @ es # after)"

inductive ingest_reachable :: "ingest_page \<times> ingest_set effect list list \<Rightarrow> bool" where
  initial: "ingest_reachable (ingest_initial, [])"
| step: "ingest_reachable c \<Longrightarrow> ingest_step c c' \<Longrightarrow> ingest_reachable c'"


text \<open>A \<^verbatim>\<open>FormData\<close> that carries both a \<^verbatim>\<open>text\<close> and a \<^verbatim>\<open>file\<close> field.\<close>

definition text_and_file :: "(string \<times> form_value) list \<Rightarrow> bool" where
  "text_and_file fd = (''text'' \<in> fst ` set fd \<and> ''file'' \<in> fst ` set fd)"

text \<open>
  The effects that cannot bring text and a file together: no setter call gives the text
  a non-empty value or selects a file, and no request carries both fields.
\<close>

fun safe_effect :: "ingest_set effect \<Rightarrow> bool" where
  "safe_effect (Set (SetText v)) = (v = [])"
| "safe_effect (Set (SetFile f)) = (f = None)"
| "safe_effect (Fetch (PostForm url fd)) = (\<not> text_and_file fd)"
| "safe_effect _ = True"

text \<open>Whether a response has \<^verbatim>\<open>ok\<close> set.\<close>

fun is_ok :: "'a response \<Rightarrow> bool" where
  "is_ok (Ok body) = True"
| "is_ok _ = False"

text \<open>What a trace does outside the component: its requests and timers, in order.\<close>

fun is_set :: "'set effect \<Rightarrow> bool" where
  "is_set (Set u) = True"
| "is_set _ = False"

definition schedule :: "'set effect list \<Rightarrow> 'set effect list" where
  "schedule es = filter (\<lambda>e. \<not> is_set e) es"


text \<open>A server on which the document appears at the third poll, after a 404 and a
  network error.\<close>

definition docs_third :: "nat \<Rightarrow> doc_body response" where
  "docs_third k = (if k = 0 then NotOk 404 ''Not Found'' [] else if k = 1 then Rejected ''Failed to fetch''
     else Ok \<lparr>chunk_count = Some 3\<rparr>)"

text \<open>Example states of the form, used to evaluate the handlers.\<close>

definition form_text_only :: ingest_page where
  "form_text_only = ingest_initial\<lparr>ingest_docId := ''doc1'', ingest_text := ''The quick brown fox''\<rparr>"



definition form_array_metadata :: ingest_page where
  "form_array_metadata = form_text_only\<lparr>ingest_metadata := ''[1,2]''\<rparr>"

definition form_bad_metadata :: ingest_page where
  "form_bad_metadata = form_text_only\<lparr>ingest_metadata := ''{author: 1}''\<rparr>"

section \<open>The search page\<close>

text \<open>
  Three versions of \<^verbatim>\<open>SearchPage\<close> are in the repository:
  \<^verbatim>\<open>src/frontend/src/components/SearchPage.jsx\<close> (suffix \<open>_jsx\<close> below),
  \<^verbatim>\<open>src/unnamed/part_002\<close> (no suffix), which reloads the configuration before it
  searches, and \<^verbatim>\<open>src/frontend/components/search-page.tsx\<close> (suffix \<open>_paged\<close>), which
  pages the results. The record holds the state variables of all three; each version
  reads and sets only its own. Numbers are only stored and passed on, and are modelled
  as integers.
\<close>

record search_result =
  chunk_id :: string
  doc_id :: string
  title :: "string option"
  score :: int
  text_snippet :: string
  metadata :: "(string \<times> json) list option"

text \<open>The \<^verbatim>\<open>SearchResponse\<close> interface of \<^verbatim>\<open>search-page.tsx\<close>.\<close>

record search_response =
  query :: string
  results :: "search_result list"
  total_count :: nat
  offset :: nat
  limit :: nat
  search_time_ms :: int

text \<open>The body of \<^verbatim>\<open>GET /config\<close>, with \<^verbatim>\<open>config.search.top_k\<close> as \<open>cfg_search_top_k\<close>.\<close>

record config_body =
  cfg_database_url :: string
  cfg_database_pool_size :: int
  cfg_database_max_overflow :: int
  cfg_vector_backend :: string
  cfg_vector_faiss_index_path :: string
  cfg_vector_faiss_m :: int
  cfg_vector_faiss_ef_construction :: int
  cfg_vector_faiss_ef_search :: int
  cfg_embedding_provider :: string
  cfg_embedding_model :: string
  cfg_embedding_dimension :: int
  cfg_embedding_openai_api_key :: "string option"
  cfg_embedding_openai_model :: "string option"
  cfg_search_chunk_tokens :: int
  cfg_search_top_k :: int
  cfg_search_reranker_enabled :: bool
  cfg_search_reranker_model :: string

record search_page =
  search_query :: string
  search_results :: "search_result list"
  search_loading :: bool
  search_searchTime :: int
  search_hybrid :: bool
  search_rerank :: bool
  search_topK :: int
  search_error :: string
  search_hasSearched :: bool
  search_currentPage :: int
  search_totalCount :: nat
  search_pageSize :: nat

datatype search_set =
    SetQuery string
  | SetResults "search_result list"
  | SetLoading_search bool
  | SetSearchTime int
  | SetHybrid bool
  | SetRerank bool
  | SetTopK int
  | SetError_search string
  | SetHasSearched bool
  | SetCurrentPage int
  | SetTotalCount nat
  | SetPageSize nat

fun search_apply :: "search_set \<Rightarrow> search_page \<Rightarrow> search_page" where
  "search_apply (SetQuery v) s = s\<lparr>search_query := v\<rparr>"
| "search_apply (SetResults v) s = s\<lparr>search_results := v\<rparr>"
| "search_apply (SetLoading_search v) s = s\<lparr>search_loading := v\<rparr>"
| "search_apply (SetSearchTime v) s = s\<lparr>search_searchTime := v\<rparr>"
| "search_apply (SetHybrid v) s = s\<lparr>search_hybrid := v\<rparr>"
| "search_apply (SetRerank v) s = s\<lparr>search_rerank := v\<rparr>"
| "search_apply (SetTopK v) s = s\<lparr>search_topK := v\<rparr>"
| "search_apply (SetError_search v) s = s\<lparr>search_error := v\<rparr>"
| "search_apply (SetHasSearched v) s = s\<lparr>search_hasSearched := v\<rparr>"
| "search_apply (SetCurrentPage v) s = s\<lparr>search_currentPage := v\<rparr>"
| "search_apply (SetTotalCount v) s = s\<lparr>search_totalCount := v\<rparr>"
| "search_apply (SetPageSize v) s = s\<lparr>search_pageSize := v\<rparr>"

definition search_effect :: "search_set effect \<Rightarrow> search_page \<Rightarrow> search_page" where
  "search_effect e s = (case e of Set u \<Rightarrow> search_apply u s | _ \<Rightarrow> s)"

definition search_run :: "search_set effect list \<Rightarrow> search_page \<Rightarrow> search_page" where
  "search_run es s = fold search_effect es s"

definition search_initial :: search_page where
  "search_initial = \<lparr>search_query = [], search_results = [], search_loading = False,
     search_searchTime = 0, search_hybrid = True, search_rerank = True, search_topK = 5,
     search_error = [], search_hasSearched = False, search_currentPage = 1,
     search_totalCount = 0, search_pageSize = 5\<rparr>"

text \<open>The object literal that \<^verbatim>\<open>SearchPage.jsx\<close> and \<^verbatim>\<open>part_002\<close> pass to
  \<^verbatim>\<open>JSON.stringify\<close>.\<close>

definition searchBody :: "search_page \<Rightarrow> json" where
  "searchBody s = JObj [(''q'', JStr (search_query s)), (''top_k'', JNum (search_topK s)),
     (''hybrid'', JBool (search_hybrid s)), (''rerank'', JBool (search_rerank s))]"

text \<open>\<^verbatim>\<open>handleSearch\<close> of \<^verbatim>\<open>SearchPage.jsx\<close>.\<close>

definition handleSearch_jsx :: "search_page \<Rightarrow> search_response response \<Rightarrow> search_set effect list" where
  "handleSearch_jsx s resp =
     (if trim (search_query s) = [] then []
      else
        [Set (SetLoading_search True), Set (SetError_search []), Set (SetResults []),
         Fetch (PostJson ''/search'' (searchBody s))]
        @ (case resp of
             Ok data \<Rightarrow> [Set (SetResults (results data)), Set (SetSearchTime (search_time_ms data))]
           | NotOk status statusText detail \<Rightarrow> [Set (SetError_search (''Search failed: '' @ statusText))]
           | Rejected msg \<Rightarrow> [Set (SetError_search msg)])
        @ [Set (SetLoading_search False)])"

text \<open>
  \<^verbatim>\<open>loadConfig\<close> and \<^verbatim>\<open>handleSearch\<close> of \<^verbatim>\<open>part_002\<close>. The body of the search
  request is built from \<^verbatim>\<open>query\<close>, \<^verbatim>\<open>topK\<close>, \<^verbatim>\<open>hybrid\<close> and \<^verbatim>\<open>rerank\<close>, the constants
  of the render the handler belongs to; \<^verbatim>\<open>await loadConfig()\<close> calls \<^verbatim>\<open>setTopK\<close> and
  \<^verbatim>\<open>setRerank\<close> but does not change these constants. A failed search only raises a toast.
\<close>

definition loadConfig :: "config_body response \<Rightarrow> search_set effect list" where
  "loadConfig cfg =
     Fetch (Get ''/config'')
     # (case cfg of
          Ok config \<Rightarrow> [Set (SetTopK (cfg_search_top_k config)),
                        Set (SetRerank (cfg_search_reranker_enabled config))]
        | NotOk status statusText detail \<Rightarrow> []
        | Rejected msg \<Rightarrow> [])"

definition handleSearch ::
  "search_page \<Rightarrow> config_body response \<Rightarrow> search_response response \<Rightarrow> search_set effect list" where
  "handleSearch s cfg resp =
     (if trim (search_query s) = [] then []
      else
        [Set (SetLoading_search True), Set (SetResults []), Set (SetHasSearched True)]
        @ loadConfig cfg
        @ [Fetch (PostJson ''/search'' (searchBody s))]
        @ (case resp of
             Ok data \<Rightarrow> [Set (SetResults (results data)), Set (SetSearchTime (search_time_ms data))]
           | NotOk status statusText detail \<Rightarrow> []
           | Rejected msg \<Rightarrow> [])
        @ [Set (SetLoading_search False)])"

text \<open>\<^verbatim>\<open>performSearch\<close>, \<^verbatim>\<open>handleSearch\<close> and \<^verbatim>\<open>handlePageChange\<close> of
  \<^verbatim>\<open>search-page.tsx\<close>; its \<^verbatim>\<open>loadConfig\<close> is called on mount only.\<close>

definition searchBody_paged :: "search_page \<Rightarrow> int \<Rightarrow> json" where
  "searchBody_paged s page = JObj [(''q'', JStr (search_query s)), (''top_k'', JNum (search_topK s)),
     (''offset'', JNum ((page - 1) * int (search_pageSize s))),
     (''limit'', JNum (int (search_pageSize s))),
     (''hybrid'', JBool (search_hybrid s)), (''rerank'', JBool (search_rerank s))]"

definition performSearch :: "search_page \<Rightarrow> int \<Rightarrow> search_response response \<Rightarrow> search_set effect list" where
  "performSearch s page resp =
     Fetch (PostJson ''/search'' (searchBody_paged s page))
     # (case resp of
          Ok data \<Rightarrow> [Set (SetResults (results data)), Set (SetTotalCount (total_count data)),
                      Set (SetCurrentPage page), Set (SetSearchTime (search_time_ms data))]
        | NotOk status statusText detail \<Rightarrow> []
        | Rejected msg \<Rightarrow> [])"

definition handleSearch_paged :: "search_page \<Rightarrow> search_response response \<Rightarrow> search_set effect list" where
  "handleSearch_paged s resp =
     (if trim (search_query s) = [] then []
      else
        [Set (SetLoading_search True), Set (SetResults []), Set (SetHasSearched True),
         Set (SetCurrentPage 1)]
        @ performSearch s 1 resp
        @ [Set (SetLoading_search False)])"




text \<open>Example inputs: a query typed into the initial page, and a configuration whose
  search settings differ from the page's.\<close>

definition search_fox :: search_page where
  "search_fox = search_initial\<lparr>search_query := ''fox''\<rparr>"

definition search_blank :: search_page where
  "search_blank = search_initial\<lparr>search_query := ''  ''\<rparr>"

definition config_example :: config_body where
  "config_example = \<lparr>cfg_database_url = ''postgresql://search_user@postgres:5432/search_db'',
     cfg_database_pool_size = 10, cfg_database_max_overflow = 20, cfg_vector_backend = ''faiss'',
     cfg_vector_faiss_index_path = ''/data/faiss'', cfg_vector_faiss_m = 32,
     cfg_vector_faiss_ef_construction = 200, cfg_vector_faiss_ef_search = 64,
     cfg_embedding_provider = ''local'', cfg_embedding_model = ''all-mpnet-base-v2'',
     cfg_embedding_dimension = 768, cfg_embedding_openai_api_key = None,
     cfg_embedding_openai_model = None, cfg_search_chunk_tokens = 512, cfg_search_top_k = 10,
     cfg_search_reranker_enabled = False,
     cfg_search_reranker_model = ''cross-encoder/ms-marco-MiniLM-L-6-v2''\<rparr>"

definition response_example :: search_response where
  "response_example = \<lparr>query = ''fox'', results = [], total_count = 0, offset = 0, limit = 5,
     search_time_ms = 12\<rparr>"


section \<open>The settings page\<close>

text \<open>
  \<^verbatim>\<open>SettingsPage\<close> of \<^verbatim>\<open>src/frontend/src/components/SettingsPage.jsx\<close> (no suffix) and
  of \<^verbatim>\<open>src/frontend/components/settings-page.tsx\<close> (suffix \<open>_tsx\<close>). The record holds
  the state variables of both: \<^verbatim>\<open>config\<close>, the configuration as last loaded or
  saved, is kept by the \<^verbatim>\<open>.jsx\<close> page only, and \<^verbatim>\<open>openaiModel\<close> by the \<^verbatim>\<open>.tsx\<close> page
  only.
\<close>

record verdict =
  valid :: bool
  message :: string

record settings_page =
  settings_config :: "config_body option"
  settings_loading :: bool
  settings_saving :: bool
  settings_message :: string
  settings_error :: string
  settings_dbUrl :: string
  settings_dbPoolSize :: int
  settings_dbMaxOverflow :: int
  settings_vectorBackend :: string
  settings_faissIndexPath :: string
  settings_faissM :: int
  settings_faissEfConstruction :: int
  settings_faissEfSearch :: int
  settings_embeddingProvider :: string
  settings_embeddingModel :: string
  settings_embeddingDimension :: int
  settings_openaiApiKey :: string
  settings_openaiModel :: string
  settings_chunkTokens :: int
  settings_topK :: int
  settings_rerankerEnabled :: bool
  settings_rerankerModel :: string
  settings_dbValidation :: "verdict option"
  settings_validatingDb :: bool

datatype settings_set =
    SetConfig "config_body option"
  | SetLoading_settings bool
  | SetSaving bool
  | SetMessage_settings string
  | SetError_settings string
  | SetDbUrl string
  | SetDbPoolSize int
  | SetDbMaxOverflow int
  | SetVectorBackend string
  | SetFaissIndexPath string
  | SetFaissM int
  | SetFaissEfConstruction int
  | SetFaissEfSearch int
  | SetEmbeddingProvider string
  | SetEmbeddingModel string
  | SetEmbeddingDimension int
  | SetOpenaiApiKey string
  | SetOpenaiModel string
  | SetChunkTokens int
  | SetTopK_settings int
  | SetRerankerEnabled bool
  | SetRerankerModel string
  | SetDbValidation "verdict option"
  | SetValidatingDb bool

fun settings_apply :: "settings_set \<Rightarrow> settings_page \<Rightarrow> settings_page" where
  "settings_apply (SetConfig v) s = s\<lparr>settings_config := v\<rparr>"
| "settings_apply (SetLoading_settings v) s = s\<lparr>settings_loading := v\<rparr>"
| "settings_apply (SetSaving v) s = s\<lparr>settings_saving := v\<rparr>"
| "settings_apply (SetMessage_settings v) s = s\<lparr>settings_message := v\<rparr>"
| "settings_apply (SetError_settings v) s = s\<lparr>settings_error := v\<rparr>"
| "settings_apply (SetDbUrl v) s = s\<lparr>settings_dbUrl := v\<rparr>"
| "settings_apply (SetDbPoolSize v) s = s\<lparr>settings_dbPoolSize := v\<rparr>"
| "settings_apply (SetDbMaxOverflow v) s = s\<lparr>settings_dbMaxOverflow := v\<rparr>"
| "settings_apply (SetVectorBackend v) s = s\<lparr>settings_vectorBackend := v\<rparr>"
| "settings_apply (SetFaissIndexPath v) s = s\<lparr>settings_faissIndexPath := v\<rparr>"
| "settings_apply (SetFaissM v) s = s\<lparr>settings_faissM := v\<rparr>"
| "settings_apply (SetFaissEfConstruction v) s = s\<lparr>settings_faissEfConstruction := v\<rparr>"
| "settings_apply (SetFaissEfSearch v) s = s\<lparr>settings_faissEfSearch := v\<rparr>"
| "settings_apply (SetEmbeddingProvider v) s = s\<lparr>settings_embeddingProvider := v\<rparr>"
| "settings_apply (SetEmbeddingModel v) s = s\<lparr>settings_embeddingModel := v\<rparr>"
| "settings_apply (SetEmbeddingDimension v) s = s\<lparr>settings_embeddingDimension := v\<rparr>"
| "settings_apply (SetOpenaiApiKey v) s = s\<lparr>settings_openaiApiKey := v\<rparr>"
| "settings_apply (SetOpenaiModel v) s = s\<lparr>settings_openaiModel := v\<rparr>"
| "settings_apply (SetChunkTokens v) s = s\<lparr>settings_chunkTokens := v\<rparr>"
| "settings_apply (SetTopK_settings v) s = s\<lparr>settings_topK := v\<rparr>"
| "settings_apply (SetRerankerEnabled v) s = s\<lparr>settings_rerankerEnabled := v\<rparr>"
| "settings_apply (SetRerankerModel v) s = s\<lparr>settings_rerankerModel := v\<rparr>"
| "settings_apply (SetDbValidation v) s = s\<lparr>settings_dbValidation := v\<rparr>"
| "settings_apply (SetValidatingDb v) s = s\<lparr>settings_validatingDb := v\<rparr>"

definition settings_effect :: "settings_set effect \<Rightarrow> settings_page \<Rightarrow> settings_page" where
  "settings_effect e s = (case e of Set u \<Rightarrow> settings_apply u s | _ \<Rightarrow> s)"

definition settings_run :: "settings_set effect list \<Rightarrow> settings_page \<Rightarrow> settings_page" where
  "settings_run es s = fold settings_effect es s"

text \<open>\<^verbatim>\<open>validateDatabase\<close>; the two versions differ in their quotation marks only.\<close>

definition validateDatabase :: "settings_page \<Rightarrow> verdict response \<Rightarrow> settings_set effect list" where
  "validateDatabase s resp =
     (if trim (settings_dbUrl s) = []
      then [Set (SetDbValidation (Some \<lparr>valid = False, message = ''Database URL is required''\<rparr>))]
      else
        [Set (SetValidatingDb True),
         Fetch (PostForm ''/config/validate-db'' [(''db_url'', FormString (settings_dbUrl s))])]
        @ (case resp of
             Ok result \<Rightarrow> [Set (SetDbValidation (Some result))]
           | NotOk status statusText detail \<Rightarrow>
               [Set (SetDbValidation (Some \<lparr>valid = False, message = ''Validation failed''\<rparr>))]
           | Rejected msg \<Rightarrow> [Set (SetDbValidation (Some \<lparr>valid = False, message = msg\<rparr>))])
        @ [Set (SetValidatingDb False)])"

definition validateDatabase_tsx :: "settings_page \<Rightarrow> verdict response \<Rightarrow> settings_set effect list" where
  "validateDatabase_tsx s resp =
     (if trim (settings_dbUrl s) = []
      then [Set (SetDbValidation (Some \<lparr>valid = False, message = ''Database URL is required''\<rparr>))]
      else
        [Set (SetValidatingDb True),
         Fetch (PostForm ''/config/validate-db'' [(''db_url'', FormString (settings_dbUrl s))])]
        @ (case resp of
             Ok result \<Rightarrow> [Set (SetDbValidation (Some result))]
           | NotOk status statusText detail \<Rightarrow>
               [Set (SetDbValidation (Some \<lparr>valid = False, message = ''Validation failed''\<rparr>))]
           | Rejected msg \<Rightarrow> [Set (SetDbValidation (Some \<lparr>valid = False, message = msg\<rparr>))])
        @ [Set (SetValidatingDb False)])"

text \<open>
  Modelled from the spec: the server's operation \<^verbatim>\<open>validate_db_connection(url)\<close>, whose
  handler is not among the sources. By section 6 of the specification it returns a
  verdict \<open>{valid: bool, message}\<close> ``without mutating any stored configuration''; the
  stored configuration is the server's one logical configuration record. Whether the
  database at the URL can be reached lies outside the system: \<open>probe\<close> is what an attempt
  to connect finds.
\<close>

definition validate_db_connection ::
  "(string \<Rightarrow> verdict) \<Rightarrow> string \<Rightarrow> config_body \<Rightarrow> verdict \<times> config_body" where
  "validate_db_connection probe url stored = (probe url, stored)"

text \<open>
  One validation, from the page to the server and back: the page and the stored record
  afterwards. With a blank URL the page sends nothing; otherwise the server is called
  with the \<^verbatim>\<open>db_url\<close> of the request and the page receives its verdict.
\<close>

definition validation_round ::
  "(string \<Rightarrow> verdict) \<Rightarrow> settings_page \<Rightarrow> config_body \<Rightarrow> settings_page \<times> config_body" where
  "validation_round probe s stored =
     (if trim (settings_dbUrl s) = [] then (settings_run (validateDatabase s (Rejected [])) s, stored)
      else case validate_db_connection probe (settings_dbUrl s) stored of
             (result, stored') \<Rightarrow> (settings_run (validateDatabase s (Ok result)) s, stored'))"

text \<open>The \<^verbatim>\<open>updates\<close> object of \<^verbatim>\<open>saveConfig\<close>: the whole form, whatever has changed.
  \<^verbatim>\<open>openaiApiKey || null\<close> is \<^verbatim>\<open>null\<close> for the empty string.\<close>

definition updates :: "settings_page \<Rightarrow> json" where
  "updates s = JObj
     [(''database'', JObj [(''url'', JStr (settings_dbUrl s)), (''pool_size'', JNum (settings_dbPoolSize s)),
        (''max_overflow'', JNum (settings_dbMaxOverflow s))]),
      (''vector'', JObj [(''backend'', JStr (settings_vectorBackend s)),
        (''faiss_index_path'', JStr (settings_faissIndexPath s)), (''faiss_m'', JNum (settings_faissM s)),
        (''faiss_ef_construction'', JNum (settings_faissEfConstruction s)),
        (''faiss_ef_search'', JNum (settings_faissEfSearch s))]),
      (''embedding'', JObj [(''provider'', JStr (settings_embeddingProvider s)),
        (''model'', JStr (settings_embeddingModel s)), (''dimension'', JNum (settings_embeddingDimension s)),
        (''openai_api_key'', if settings_openaiApiKey s = [] then JNull else JStr (settings_openaiApiKey s))]),
      (''search'', JObj [(''chunk_tokens'', JNum (settings_chunkTokens s)), (''top_k'', JNum (settings_topK s)),
        (''reranker_enabled'', JBool (settings_rerankerEnabled s)),
        (''reranker_model'', JStr (settings_rerankerModel s))])]"

definition updates_tsx :: "settings_page \<Rightarrow> json" where
  "updates_tsx s = JObj
     [(''database'', JObj [(''url'', JStr (settings_dbUrl s)), (''pool_size'', JNum (settings_dbPoolSize s)),
        (''max_overflow'', JNum (settings_dbMaxOverflow s))]),
      (''vector'', JObj [(''backend'', JStr (settings_vectorBackend s)),
        (''faiss_index_path'', JStr (settings_faissIndexPath s)), (''faiss_m'', JNum (settings_faissM s)),
        (''faiss_ef_construction'', JNum (settings_faissEfConstruction s)),
        (''faiss_ef_search'', JNum (settings_faissEfSearch s))]),
      (''embedding'', JObj [(''provider'', JStr (settings_embeddingProvider s)),
        (''model'', JStr (settings_embeddingModel s)), (''dimension'', JNum (settings_embeddingDimension s)),
        (''openai_api_key'', if settings_openaiApiKey s = [] then JNull else JStr (settings_openaiApiKey s)),
        (''openai_model'', JStr (settings_openaiModel s))]),
      (''search'', JObj [(''chunk_tokens'', JNum (settings_chunkTokens s)), (''top_k'', JNum (settings_topK s)),
        (''reranker_enabled'', JBool (settings_rerankerEnabled s)),
        (''reranker_model'', JStr (settings_rerankerModel s))])]"

text \<open>\<^verbatim>\<open>saveConfig\<close> of \<^verbatim>\<open>SettingsPage.jsx\<close>.\<close>

definition saveConfig :: "settings_page \<Rightarrow> config_body response \<Rightarrow> settings_set effect list" where
  "saveConfig s resp =
     [Set (SetSaving True), Set (SetError_settings []), Set (SetMessage_settings []),
      Fetch (PostJson ''/config'' (updates s))]
     @ (case resp of
          Ok newConfig \<Rightarrow>
            [Set (SetConfig (Some newConfig)),
             Set (SetMessage_settings
               ''Configuration saved successfully! Restart the service to apply changes.'')]
        | NotOk status statusText detail \<Rightarrow> [Set (SetError_settings ''Failed to save configuration'')]
        | Rejected msg \<Rightarrow> [Set (SetError_settings msg)])
     @ [Set (SetSaving False)]"

text \<open>
  \<^verbatim>\<open>saveConfig\<close> of \<^verbatim>\<open>settings-page.tsx\<close>. After a successful save it asks the server
  to reload; the response to that request is not looked at (\<open>reload\<close> is what the server
  answers), and a rejection is only logged.
\<close>

definition saveConfig_tsx ::
  "settings_page \<Rightarrow> config_body response \<Rightarrow> unit response \<Rightarrow> settings_set effect list" where
  "saveConfig_tsx s resp reload =
     [Set (SetSaving True), Set (SetError_settings []), Set (SetMessage_settings []),
      Fetch (PostJson ''/config'' (updates_tsx s))]
     @ (case resp of
          Ok newConfig \<Rightarrow>
            [Fetch (Post ''/config/reload''),
             Set (SetMessage_settings ''Configuration saved successfully!'')]
        | NotOk status statusText detail \<Rightarrow> [Set (SetError_settings ''Failed to save configuration'')]
        | Rejected msg \<Rightarrow> [Set (SetError_settings msg)])
     @ [Set (SetSaving False)]"

text \<open>\<^verbatim>\<open>String.prototype.includes\<close>: whether \<open>sub\<close> occurs in \<open>s\<close>.\<close>

fun js_includes :: "string \<Rightarrow> string \<Rightarrow> bool" where
  "js_includes [] sub = (sub = [])"
| "js_includes (c # cs) sub = (take (length sub) (c # cs) = sub \<or> js_includes cs sub)"

text \<open>
  How the pages render \<^verbatim>\<open>message\<close>, as the list of the text nodes of the alert (empty
  when no alert is rendered). \<^verbatim>\<open>SettingsPage.jsx\<close> shows the message alone.
  \<^verbatim>\<open>settings-page.tsx\<close> adds a note to every message that includes ``saved''.
\<close>

definition message_alert :: "string \<Rightarrow> string list" where
  "message_alert m = (if m = [] then [] else [m])"

definition message_alert_tsx :: "string \<Rightarrow> string list" where
  "message_alert_tsx m =
     (if m = [] then []
      else m # (if js_includes m ''saved''
                then [''Note:'',
                      '' Some changes (embedding models, vector backends) require server restart to take effect.'']
                else []))"

text \<open>The confirmation the user reads after a successful save: the alert that the page
  renders from the message \<^verbatim>\<open>saveConfig\<close> has set.\<close>

definition confirmation :: "settings_page \<Rightarrow> config_body \<Rightarrow> string list" where
  "confirmation s newConfig =
     message_alert (settings_message (settings_run (saveConfig s (Ok newConfig)) s))"

definition confirmation_tsx :: "settings_page \<Rightarrow> config_body \<Rightarrow> unit response \<Rightarrow> string list" where
  "confirmation_tsx s newConfig reload =
     message_alert_tsx (settings_message (settings_run (saveConfig_tsx s (Ok newConfig) reload) s))"

text \<open>
  Example states: the form as \<^verbatim>\<open>loadConfig\<close> fills it from \<^const>\<open>config_example\<close>; the
  same form after the user has changed \<^verbatim>\<open>top_k\<close> only (a search setting, which the page
  of \<^verbatim>\<open>settings-page.tsx\<close> lists as dynamic); and after the user has changed the
  embedding provider only (listed there as needing a restart).
\<close>

definition settings_loaded :: settings_page where
  "settings_loaded = \<lparr>settings_config = Some config_example, settings_loading = False,
     settings_saving = False, settings_message = [], settings_error = [],
     settings_dbUrl = ''postgresql://search_user@postgres:5432/search_db'', settings_dbPoolSize = 10,
     settings_dbMaxOverflow = 20, settings_vectorBackend = ''faiss'',
     settings_faissIndexPath = ''/data/faiss'', settings_faissM = 32,
     settings_faissEfConstruction = 200, settings_faissEfSearch = 64,
     settings_embeddingProvider = ''local'', settings_embeddingModel = ''all-mpnet-base-v2'',
     settings_embeddingDimension = 768, settings_openaiApiKey = [],
     settings_openaiModel = ''text-embedding-3-small'', settings_chunkTokens = 512, settings_topK = 10,
     settings_rerankerEnabled = False,
     settings_rerankerModel = ''cross-encoder/ms-marco-MiniLM-L-6-v2'', settings_dbValidation = None,
     settings_validatingDb = False\<rparr>"

definition settings_live_change :: settings_page where
  "settings_live_change = settings_loaded\<lparr>settings_topK := 20\<rparr>"

definition settings_restart_change :: settings_page where
  "settings_restart_change = settings_loaded\<lparr>settings_embeddingProvider := ''openai''\<rparr>"


section \<open>Facts about the ingest page\<close>

subsection \<open>Blank strings\<close>

lemma trim_Nil_iff: "trim q = [] \<longleftrightarrow> (\<forall>c\<in>set q. js_whitespace c)"
proof
  assume "trim q = []"
  then have a: "dropWhile js_whitespace (rev (dropWhile js_whitespace q)) = []"
    by (simp add: trim_def)
  show "\<forall>c\<in>set q. js_whitespace c"
  proof (cases "dropWhile js_whitespace q")
    case Nil
    then show ?thesis by (simp add: dropWhile_eq_Nil_conv)
  next
    case (Cons x xs)
    then have "\<not> js_whitespace x"
      using hd_dropWhile[of js_whitespace q] by simp
    moreover from a Cons have "js_whitespace x"
      by (simp add: dropWhile_eq_Nil_conv)
    ultimately show ?thesis by simp
  qed
next
  assume "\<forall>c\<in>set q. js_whitespace c"
  then show "trim q = []" by (auto simp: trim_def dest: set_dropWhileD)
qed

lemma trim_doc1: "trim ''doc1'' = ''doc1''"
  by (simp add: trim_def js_whitespace_def)


subsection \<open>The two versions agree\<close>

text \<open>The two versions of the page perform the same effects.\<close>

lemma poll_tsx_eq: "poll_tsx d docs a = poll d docs a"
proof (induction d docs a rule: poll.induct)
  case (1 d docs a)
  show ?case
  proof (cases "docs a")
    case (Ok body)
    then show ?thesis
      by (simp add: poll.simps[of d docs a] poll_tsx.simps[of d docs a] pollForCompletion_def)
  next
    case (NotOk st stt det)
    then show ?thesis
      using 1[of "[Fetch (Get (''/docs/'' @ d))]" False]
      by (simp add: poll.simps[of d docs a] poll_tsx.simps[of d docs a] pollForCompletion_def not_less)
  next
    case (Rejected m)
    then show ?thesis
      using 1[of "[Fetch (Get (''/docs/'' @ d))]" False]
      by (simp add: poll.simps[of d docs a] poll_tsx.simps[of d docs a] pollForCompletion_def not_less)
  qed
qed

lemma handleSubmit_tsx_eq: "handleSubmit_tsx s resp = handleSubmit s resp"
  by (simp add: handleSubmit_tsx_def handleSubmit_def pollForCompletion_tsx_def split: response.splits)


subsection \<open>Facts about the polling loop\<close>

lemma ingest_run_Cons: "ingest_run (e # es) s = ingest_run es (ingest_effect e s)"
  by (simp add: ingest_run_def)

lemma ingest_run_append: "ingest_run (es @ fs) s = ingest_run fs (ingest_run es s)"
  by (simp add: ingest_run_def)

lemma requests_append: "requests (es @ fs) = requests es @ requests fs"
  by (induction es rule: requests.induct) simp_all

lemma requests_clearForm: "requests clearForm = []"
  by (simp add: clearForm_def)

lemma ingest_message_clearForm: "ingest_message (ingest_run clearForm s) = ingest_message s"
  by (simp add: clearForm_def ingest_run_def ingest_effect_def)

text \<open>The three ways one round of \<^const>\<open>poll\<close> can go, and induction over the rounds.\<close>

lemma poll_Ok:
  "docs a = Ok body \<Longrightarrow>
   poll d docs a = [Fetch (Get (''/docs/'' @ d)), Set (SetMessage (ingested_message d (chunk_count body)))]
     @ clearForm"
  by (simp add: poll.simps[of d docs a] pollForCompletion_def)

lemma poll_pending_last:
  "\<not> is_ok (docs a) \<Longrightarrow> maxAttempts \<le> Suc a \<Longrightarrow> poll d docs a = Fetch (Get (''/docs/'' @ d)) # clearForm"
  by (cases "docs a") (simp_all add: poll.simps[of d docs a] pollForCompletion_def)

lemma poll_pending_more:
  "\<not> is_ok (docs a) \<Longrightarrow> Suc a < maxAttempts \<Longrightarrow>
   poll d docs a = Fetch (Get (''/docs/'' @ d)) # SetTimeout pollInterval # poll d docs (Suc a)"
  by (cases "docs a") (simp_all add: poll.simps[of d docs a] pollForCompletion_def)

lemma poll_induct [case_names complete last more]:
  assumes ok: "\<And>a body. docs a = Ok body \<Longrightarrow> P a"
    and last: "\<And>a. \<not> is_ok (docs a) \<Longrightarrow> maxAttempts \<le> Suc a \<Longrightarrow> P a"
    and more: "\<And>a. \<not> is_ok (docs a) \<Longrightarrow> Suc a < maxAttempts \<Longrightarrow> P (Suc a) \<Longrightarrow> P a"
  shows "P a"
proof (induction "maxAttempts - a" arbitrary: a)
  case 0
  then have le: "maxAttempts \<le> Suc a" by simp
  show ?case
  proof (cases "is_ok (docs a)")
    case True
    then obtain body where "docs a = Ok body" by (cases "docs a") simp_all
    then show ?thesis by (rule ok)
  next
    case False
    then show ?thesis using le by (rule last)
  qed
next
  case (Suc n)
  have "n = maxAttempts - Suc a" using Suc.hyps(2) by simp
  then have ih: "P (Suc a)" by (rule Suc.hyps(1))
  show ?case
  proof (cases "is_ok (docs a)")
    case True
    then obtain body where "docs a = Ok body" by (cases "docs a") simp_all
    then show ?thesis by (rule ok)
  next
    case False
    show ?thesis
    proof (cases "Suc a < maxAttempts")
      case True
      with False show ?thesis using ih by (rule more)
    next
      case False
      then have "maxAttempts \<le> Suc a" by simp
      with \<open>\<not> is_ok (docs a)\<close> show ?thesis by (rule last)
    qed
  qed
qed

lemma poll_requests_pos: "0 < length (requests (poll d docs a))"
  by (induction a rule: poll_induct[where docs = docs])
    (simp_all add: poll_Ok poll_pending_last poll_pending_more)

lemma poll_requests_bound: "length (requests (poll d docs a)) \<le> Suc (maxAttempts - Suc a)"
proof (induction a rule: poll_induct[where docs = docs])
  case (complete a body)
  then show ?case by (simp add: poll_Ok requests_clearForm requests_append)
next
  case (last a)
  then show ?case by (simp add: poll_pending_last requests_clearForm)
next
  case (more a)
  then show ?case by (simp add: poll_pending_more)
qed

lemma poll_ends_with_clearForm: "\<exists>es. poll d docs a = es @ clearForm"
proof (induction a rule: poll_induct[where docs = docs])
  case (complete a body)
  then show ?case by (simp add: poll_Ok)
next
  case (last a)
  then have "poll d docs a = [Fetch (Get (''/docs/'' @ d))] @ clearForm"
    by (simp add: poll_pending_last)
  then show ?case by blast
next
  case (more a)
  then obtain es where "poll d docs (Suc a) = es @ clearForm" by blast
  with more have "poll d docs a = (Fetch (Get (''/docs/'' @ d)) # SetTimeout pollInterval # es) @ clearForm"
    by (simp add: poll_pending_more)
  then show ?case by blast
qed

lemma poll_schedule:
  "schedule (poll d docs a) =
     Fetch (Get (''/docs/'' @ d))
     # concat (replicate (length (requests (poll d docs a)) - 1)
         [SetTimeout pollInterval, Fetch (Get (''/docs/'' @ d))])"
proof (induction a rule: poll_induct[where docs = docs])
  case (complete a body)
  then show ?case by (simp add: poll_Ok clearForm_def schedule_def)
next
  case (last a)
  then show ?case by (simp add: poll_pending_last clearForm_def schedule_def)
next
  case (more a)
  obtain m where m: "length (requests (poll d docs (Suc a))) = Suc m"
    using poll_requests_pos[of d docs "Suc a"] by (cases "length (requests (poll d docs (Suc a)))") simp_all
  from more m show ?case
    by (simp add: poll_pending_more schedule_def)
qed

lemma poll_early:
  "docs k = Ok body \<Longrightarrow> k < maxAttempts \<Longrightarrow> a \<le> k \<Longrightarrow> (\<forall>j. a \<le> j \<and> j < k \<longrightarrow> \<not> is_ok (docs j)) \<Longrightarrow>
   requests (poll d docs a) = replicate (Suc (k - a)) (Get (''/docs/'' @ d))
   \<and> ingest_message (ingest_run (poll d docs a) s) = ingested_message d (chunk_count body)"
proof (induction "k - a" arbitrary: a s)
  case 0
  then have "a = k" by simp
  with 0 show ?case
    by (simp add: poll_Ok requests_clearForm requests_append ingest_run_Cons ingest_message_clearForm
        ingest_effect_def)
next
  case (Suc n)
  then have ak: "a < k" by simp
  with Suc.prems have pend: "\<not> is_ok (docs a)" "Suc a < maxAttempts" by auto
  have n: "n = k - Suc a" using Suc.hyps(2) by simp
  have le: "Suc a \<le> k" using ak by simp
  have "\<forall>j. Suc a \<le> j \<and> j < k \<longrightarrow> \<not> is_ok (docs j)" using Suc.prems(4) by auto
  from Suc.hyps(1)[OF n Suc.prems(1,2) le this, of "ingest_effect (Fetch (Get (''/docs/'' @ d))) s"]
  have ih: "requests (poll d docs (Suc a)) = replicate (Suc n) (Get (''/docs/'' @ d))"
    "ingest_message (ingest_run (poll d docs (Suc a)) s) = ingested_message d (chunk_count body)"
    by (simp_all add: n ingest_effect_def)
  have "k - a = Suc n" using Suc.hyps(2) by simp
  with ih show ?case
    by (simp add: poll_pending_more[of docs a d, OF pend] ingest_run_Cons ingest_effect_def)
qed


subsection \<open>The checks of a submission\<close>


subsection \<open>The metadata field\<close>

text \<open>The placeholder of the metadata field, \<^verbatim>\<open>{"author": "John Doe", "category": "research"}\<close>,
  is an object.\<close>

lemma JSON_parse_placeholder:
  "JSON_parse (''{'' @ [CHR 0x22] @ ''author'' @ [CHR 0x22] @ '': '' @ [CHR 0x22] @ ''John Doe'' @ [CHR 0x22]
     @ '', '' @ [CHR 0x22] @ ''category'' @ [CHR 0x22] @ '': '' @ [CHR 0x22] @ ''research'' @ [CHR 0x22] @ ''}'')
   = Some KObject"
  by code_simp

lemma JSON_parse_array: "JSON_parse ''[1,2]'' = Some KArray"
  by code_simp

lemma JSON_parse_bad: "JSON_parse ''{author: 1}'' = None"
  by code_simp

text \<open>
  Claim C2, as stated, fails for metadata that is JSON but not an object: the array
  \<^verbatim>\<open>[1,2]\<close> passes \<^verbatim>\<open>JSON.parse\<close>, and the ingest request is issued with it.
\<close>

theorem handleSubmit_accepts_array_metadata:
  "ingest_metadata form_array_metadata \<noteq> []
   \<and> JSON_parse (ingest_metadata form_array_metadata) = Some KArray
   \<and> requests (handleSubmit form_array_metadata (Ok \<lparr>chunk_count = Some 1\<rparr>))
       = [PostForm ''/ingest''
           [(''doc_id'', FormString ''doc1''), (''sync'', FormString ''false''),
            (''text'', FormString ''The quick brown fox''), (''metadata'', FormString ''[1,2]'')]]
   \<and> ingest_error (ingest_run (handleSubmit form_array_metadata (Ok \<lparr>chunk_count = Some 1\<rparr>))
        form_array_metadata) = []"
  by (simp add: handleSubmit_def form_array_metadata_def form_text_only_def ingest_initial_def
      trim_doc1 formData_def show_bool_def started_message_def ingest_run_def ingest_effect_def
      JSON_parse_array)

text \<open>
  Claim C2, as the code has it. With a non-empty metadata field, \<^verbatim>\<open>handleSubmit\<close> (both
  versions) proceeds only if \<^verbatim>\<open>JSON.parse\<close> accepts the metadata, whatever kind of JSON
  value it is. If it does not parse, no request is issued and an error is shown:
  ``Invalid JSON in metadata'' when the form has passed the two earlier checks, with the
  loading flag cleared again. If it parses and the form passes the earlier checks, the
  one ingest request carries the metadata string unchanged.
\<close>

theorem handleSubmit_metadata:
  "ingest_metadata s \<noteq> [] \<Longrightarrow>
   (JSON_parse (ingest_metadata s) = None \<longrightarrow>
      requests (handleSubmit s resp) = [] \<and> requests (handleSubmit_tsx s resp) = []
      \<and> ingest_error (ingest_run (handleSubmit s resp) s) \<noteq> []
      \<and> ingest_error (ingest_run (handleSubmit_tsx s resp) s) \<noteq> []
      \<and> (trim (ingest_docId s) \<noteq> [] \<and> (ingest_text s \<noteq> [] \<or> ingest_file s \<noteq> None) \<longrightarrow>
           ingest_error (ingest_run (handleSubmit s resp) s) = ''Invalid JSON in metadata''
           \<and> ingest_error (ingest_run (handleSubmit_tsx s resp) s) = ''Invalid JSON in metadata''
           \<and> \<not> ingest_loading (ingest_run (handleSubmit s resp) s)
           \<and> \<not> ingest_loading (ingest_run (handleSubmit_tsx s resp) s)))
   \<and> (JSON_parse (ingest_metadata s) \<noteq> None
        \<and> trim (ingest_docId s) \<noteq> [] \<and> (ingest_text s \<noteq> [] \<or> ingest_file s \<noteq> None) \<longrightarrow>
      requests (handleSubmit s resp) = [PostForm ''/ingest'' (formData s)]
      \<and> requests (handleSubmit_tsx s resp) = [PostForm ''/ingest'' (formData s)]
      \<and> (''metadata'', FormString (ingest_metadata s)) \<in> set (formData s))"
  unfolding handleSubmit_tsx_eq
  by (auto simp: handleSubmit_def ingest_run_def ingest_effect_def clearForm_def formData_def
      split: response.splits)

theorem handleSubmit_metadata_witness:
  "ingest_metadata form_bad_metadata \<noteq> []
   \<and> JSON_parse (ingest_metadata form_bad_metadata) = None
   \<and> requests (handleSubmit form_bad_metadata (Ok \<lparr>chunk_count = Some 1\<rparr>)) = []
   \<and> ingest_error (ingest_run (handleSubmit form_bad_metadata (Ok \<lparr>chunk_count = Some 1\<rparr>))
        form_bad_metadata) = ''Invalid JSON in metadata''
   \<and> JSON_parse (ingest_metadata form_array_metadata) \<noteq> None
   \<and> requests (handleSubmit form_array_metadata (Ok \<lparr>chunk_count = Some 1\<rparr>))
        = [PostForm ''/ingest'' (formData form_array_metadata)]"
  using handleSubmit_metadata[of form_bad_metadata "Ok \<lparr>chunk_count = Some 1\<rparr>"]
    handleSubmit_metadata[of form_array_metadata "Ok \<lparr>chunk_count = Some 1\<rparr>"]
  by (simp add: form_bad_metadata_def form_array_metadata_def form_text_only_def
      ingest_initial_def trim_doc1 JSON_parse_array JSON_parse_bad)

subsection \<open>The polling loop ends\<close>

lemma ingest_run_clearForm:
  "ingest_run (es @ clearForm) s =
     (ingest_run es s)\<lparr>ingest_docId := [], ingest_title := [], ingest_text := [], ingest_file := None,
       ingest_metadata := []\<rparr>"
  by (simp add: ingest_run_append) (simp add: ingest_run_def clearForm_def ingest_effect_def)

text \<open>
  Claim C9. The polling loop is the total function \<^const>\<open>poll\<close> (its termination is
  proved where it is defined), so it returns whatever the server answers. Started with the
  counter at 0 it makes at most 10 fetches of the document; its requests and timers
  alternate, one 1000 ms timer between two fetches; if the first response with \<^verbatim>\<open>ok\<close>
  set is the one to fetch \<open>k + 1\<close> (\<open>k < 10\<close>), that fetch is the last; its last
  effects are those of clearing the form, and the five form fields are empty afterwards.
  The \<^verbatim>\<open>.tsx\<close> loop performs the same effects.
\<close>

theorem poll_terminates_within_ten:
  "maxAttempts = 10 \<and> pollInterval = 1000
   \<and> length (requests (poll d docs 0)) \<le> 10
   \<and> schedule (poll d docs 0) =
        Fetch (Get (''/docs/'' @ d))
        # concat (replicate (length (requests (poll d docs 0)) - 1)
            [SetTimeout 1000, Fetch (Get (''/docs/'' @ d))])
   \<and> (\<forall>k body. docs k = Ok body \<and> k < 10 \<and> (\<forall>j<k. \<not> is_ok (docs j)) \<longrightarrow>
         length (requests (poll d docs 0)) = Suc k)
   \<and> (\<exists>es. poll d docs 0 = es @ clearForm)
   \<and> ingest_docId (ingest_run (poll d docs 0) s) = []
   \<and> ingest_title (ingest_run (poll d docs 0) s) = []
   \<and> ingest_text (ingest_run (poll d docs 0) s) = []
   \<and> ingest_file (ingest_run (poll d docs 0) s) = None
   \<and> ingest_metadata (ingest_run (poll d docs 0) s) = []
   \<and> poll_tsx d docs 0 = poll d docs 0"
proof -
  have bound: "length (requests (poll d docs 0)) \<le> 10"
    using poll_requests_bound[of d docs 0] by (simp add: maxAttempts_def)
  have sched: "schedule (poll d docs 0) =
        Fetch (Get (''/docs/'' @ d))
        # concat (replicate (length (requests (poll d docs 0)) - 1)
            [SetTimeout 1000, Fetch (Get (''/docs/'' @ d))])"
    using poll_schedule[of d docs 0] by (simp add: pollInterval_def)
  have early: "length (requests (poll d docs 0)) = Suc k"
    if "docs k = Ok body" "k < 10" "\<forall>j<k. \<not> is_ok (docs j)" for k body
    using poll_early[of docs k body 0 d s] that by (simp add: maxAttempts_def)
  obtain es where es: "poll d docs 0 = es @ clearForm"
    using poll_ends_with_clearForm by blast
  have cleared: "ingest_docId (ingest_run (poll d docs 0) s) = []"
    "ingest_title (ingest_run (poll d docs 0) s) = []"
    "ingest_text (ingest_run (poll d docs 0) s) = []"
    "ingest_file (ingest_run (poll d docs 0) s) = None"
    "ingest_metadata (ingest_run (poll d docs 0) s) = []"
    by (simp_all add: es ingest_run_clearForm)
  show ?thesis
    using bound sched early es cleared
    by (simp add: maxAttempts_def pollInterval_def poll_tsx_eq)
qed

text \<open>Witness for C9: a 404, then a network error, then the document; three fetches.\<close>

theorem poll_terminates_within_ten_witness:
  "docs_third 0 = NotOk 404 ''Not Found'' [] \<and> docs_third 1 = Rejected ''Failed to fetch''
   \<and> docs_third 2 = Ok \<lparr>chunk_count = Some 3\<rparr>
   \<and> length (requests (poll ''doc1'' docs_third 0)) = 3"
proof -
  have h: "docs_third 2 = Ok \<lparr>chunk_count = Some 3\<rparr> \<and> (2::nat) < 10 \<and> (\<forall>j<2. \<not> is_ok (docs_third j))"
    by (simp add: docs_third_def)
  from poll_terminates_within_ten[of "''doc1''" docs_third ingest_initial]
  have "\<forall>k body. docs_third k = Ok body \<and> k < 10 \<and> (\<forall>j<k. \<not> is_ok (docs_third j)) \<longrightarrow>
         length (requests (poll ''doc1'' docs_third 0)) = Suc k"
    by blast
  with h have "length (requests (poll ''doc1'' docs_third 0)) = Suc 2" by blast
  then show ?thesis by (simp add: docs_third_def)
qed

subsection \<open>Polling after an asynchronous submission\<close>










subsection \<open>Text and file exclude each other\<close>

lemma text_and_file_formData:
  "text_and_file (formData s) \<longleftrightarrow> ingest_text s \<noteq> [] \<and> ingest_file s \<noteq> None"
  by (cases "ingest_file s") (auto simp: text_and_file_def formData_def)

lemma safe_clearForm: "e \<in> set clearForm \<Longrightarrow> safe_effect e"
  by (auto simp: clearForm_def)

lemma safe_poll: "e \<in> set (poll d docs a) \<Longrightarrow> safe_effect e"
proof (induction a rule: poll_induct[where docs = docs])
  case (complete a body)
  then show ?case by (auto simp: poll_Ok dest: safe_clearForm)
next
  case (last a)
  then show ?case by (auto simp: poll_pending_last dest: safe_clearForm)
next
  case (more a)
  then show ?case by (auto simp: poll_pending_more)
qed

lemma handleSubmit_effects:
  "set (handleSubmit s resp) \<subseteq>
     {Fetch (PostForm ''/ingest'' (formData s)), SetTimeout 500} \<union> set clearForm
     \<union> range (\<lambda>b. Set (SetLoading b)) \<union> range (\<lambda>m. Set (SetMessage m))
     \<union> range (\<lambda>m. Set (SetError m))"
  by (cases resp) (auto simp: handleSubmit_def)

lemma safe_handleSubmit:
  assumes "ingest_file s \<noteq> None \<longrightarrow> ingest_text s = []" and "e \<in> set (handleSubmit s resp)"
  shows "safe_effect e"
proof -
  from assms(2) handleSubmit_effects[of s resp]
  consider "e = Fetch (PostForm ''/ingest'' (formData s))" | "e = SetTimeout 500" | "e \<in> set clearForm"
    | b where "e = Set (SetLoading b)" | m where "e = Set (SetMessage m)" | m where "e = Set (SetError m)"
    by blast
  then show ?thesis
  proof cases
    case 1
    with assms(1) show ?thesis by (auto simp: text_and_file_formData)
  next
    case 3
    then show ?thesis by (rule safe_clearForm)
  qed simp_all
qed

lemma safe_submission:
  assumes "ingest_file s \<noteq> None \<longrightarrow> ingest_text s = []" and "e \<in> set (submission s resp docs)"
  shows "safe_effect e"
  using assms safe_handleSubmit[of s e resp] safe_poll[of e "ingest_docId s" docs 0]
  by (auto simp: submission_def split: if_splits)

lemma safe_effect_preserves:
  assumes "safe_effect e" and "ingest_file s \<noteq> None \<longrightarrow> ingest_text s = []"
  shows "ingest_file (ingest_effect e s) \<noteq> None \<longrightarrow> ingest_text (ingest_effect e s) = []"
proof (cases e)
  case (Set u)
  with assms show ?thesis by (cases u) (auto simp: ingest_effect_def)
next
  case (Fetch r)
  with assms show ?thesis by (simp add: ingest_effect_def)
next
  case (SetTimeout t)
  with assms show ?thesis by (simp add: ingest_effect_def)
qed

lemma change_preserves:
  assumes "enabled s ev" and "\<not> is_submit ev" and "ingest_file s \<noteq> None \<longrightarrow> ingest_text s = []"
  shows "ingest_file (ingest_run (handler s ev) s) \<noteq> None \<longrightarrow> ingest_text (ingest_run (handler s ev) s) = []"
  using assms
  by (cases ev) (auto simp: ingest_run_def ingest_effect_def handleFileChange_def split: option.splits)

lemma reachable_invariant:
  assumes "ingest_reachable c"
  shows "(ingest_file (fst c) \<noteq> None \<longrightarrow> ingest_text (fst c) = [])
    \<and> (\<forall>t\<in>set (snd c). \<forall>e\<in>set t. safe_effect e)"
  using assms
proof (induction rule: ingest_reachable.induct)
  case initial
  show ?case by (simp add: ingest_initial_def)
next
  case (step c c')
  from step.hyps(2) step.IH show ?case
  proof (induction rule: ingest_step.induct)
    case (change s ev pending)
    then show ?case using change_preserves[of s ev] by simp
  next
    case (submit s ev pending)
    then obtain resp docs where ev: "ev = Submit resp docs" by (cases ev) simp_all
    with submit show ?case using safe_submission[of s _ resp docs] by auto
  next
    case (progress s before e es after)
    then have "safe_effect e" by simp
    with progress show ?case using safe_effect_preserves[of e s] by auto
  qed
qed

text \<open>
  Claim C8. In every configuration the form can reach from its initial state, by any
  interleaving of the user's events with the effects of running submissions: if a file
  is selected the text is empty. Selecting a file sets the file and clears the text; the
  text area raises no change event while a file is selected; and no ingest request, built
  now or still to be sent by a running submission, carries both a text and a file field.
\<close>

theorem file_excludes_text:
  assumes "ingest_reachable (s, pending)"
  shows "(ingest_file s \<noteq> None \<longrightarrow> ingest_text s = [])
    \<and> ingest_run (handleFileChange (Some f)) s = s\<lparr>ingest_file := Some f, ingest_text := []\<rparr>
    \<and> (ingest_file s \<noteq> None \<longrightarrow> \<not> enabled s (ChangeText v))
    \<and> \<not> text_and_file (formData s)
    \<and> (\<forall>url fd. Fetch (PostForm url fd) \<in> set (handleSubmit s resp) \<longrightarrow> \<not> text_and_file fd)
    \<and> (\<forall>url fd. Fetch (PostForm url fd) \<in> set (handleSubmit_tsx s resp) \<longrightarrow> \<not> text_and_file fd)
    \<and> (\<forall>t\<in>set pending. \<forall>url fd. Fetch (PostForm url fd) \<in> set t \<longrightarrow> \<not> text_and_file fd)"
proof -
  from reachable_invariant[OF assms]
  have inv: "ingest_file s \<noteq> None \<longrightarrow> ingest_text s = []"
    and safe: "\<forall>t\<in>set pending. \<forall>e\<in>set t. safe_effect e" by simp_all
  have a: "ingest_run (handleFileChange (Some f)) s = s\<lparr>ingest_file := Some f, ingest_text := []\<rparr>"
    by (simp add: handleFileChange_def ingest_run_def ingest_effect_def)
  have b: "ingest_file s \<noteq> None \<longrightarrow> \<not> enabled s (ChangeText v)" by simp
  have c: "\<not> text_and_file (formData s)" using inv by (auto simp: text_and_file_formData)
  have d: "\<forall>url fd. Fetch (PostForm url fd) \<in> set (handleSubmit s resp) \<longrightarrow> \<not> text_and_file fd"
    using safe_handleSubmit[OF inv, of _ resp] by fastforce
  have e: "\<forall>t\<in>set pending. \<forall>url fd. Fetch (PostForm url fd) \<in> set t \<longrightarrow> \<not> text_and_file fd"
    using safe by fastforce
  from inv a b c d e show ?thesis by (simp add: handleSubmit_tsx_eq)
qed

text \<open>Witness for C8: the user types a draft and then selects a file.\<close>

theorem file_excludes_text_witness:
  "ingest_reachable
     (ingest_run (handleFileChange (Some (Upload ''a.pdf''))) (ingest_run [Set (SetText ''draft'')] ingest_initial), [])
   \<and> ingest_file (ingest_run (handleFileChange (Some (Upload ''a.pdf'')))
        (ingest_run [Set (SetText ''draft'')] ingest_initial)) = Some (Upload ''a.pdf'')
   \<and> ingest_text (ingest_run (handleFileChange (Some (Upload ''a.pdf'')))
        (ingest_run [Set (SetText ''draft'')] ingest_initial)) = []"
proof -
  let ?s1 = "ingest_run [Set (SetText ''draft'')] ingest_initial"
  let ?s2 = "ingest_run (handleFileChange (Some (Upload ''a.pdf''))) ?s1"
  have "ingest_step (ingest_initial, []) (ingest_run (handler ingest_initial (ChangeText ''draft'')) ingest_initial, [])"
    by (rule ingest_step.change) (simp_all add: ingest_initial_def)
  then have r1: "ingest_reachable (?s1, [])"
    using ingest_reachable.step[OF ingest_reachable.initial] by simp
  have "ingest_step (?s1, []) (ingest_run (handler ?s1 (ChangeFile (Some (Upload ''a.pdf'')))) ?s1, [])"
    by (rule ingest_step.change) (simp_all add: ingest_initial_def ingest_run_def ingest_effect_def)
  then have r2: "ingest_reachable (?s2, [])"
    using ingest_reachable.step[OF r1] by simp
  have f: "ingest_file ?s2 = Some (Upload ''a.pdf'')"
    by (simp add: handleFileChange_def ingest_run_def ingest_effect_def)
  from file_excludes_text[OF r2] f r2 show ?thesis by simp
qed

subsection \<open>Validation of a submission\<close>








section \<open>Facts about the search page\<close>

lemma trim_fox: "trim ''fox'' = ''fox''"
  by (simp add: trim_def js_whitespace_def)

text \<open>
  Claim C10. When the query is empty or consists of whitespace only, \<^verbatim>\<open>handleSearch\<close>
  (all three versions) performs no effect at all: no request is issued, and the state of
  the page, with its results, loading flag and search time, is what it was.
\<close>

theorem handleSearch_blank_query:
  assumes "\<forall>c\<in>set (search_query s). js_whitespace c"
  shows "handleSearch s cfg resp = [] \<and> handleSearch_jsx s resp = [] \<and> handleSearch_paged s resp = []
    \<and> requests (handleSearch s cfg resp) = [] \<and> requests (handleSearch_jsx s resp) = []
    \<and> requests (handleSearch_paged s resp) = []
    \<and> search_run (handleSearch s cfg resp) s = s \<and> search_run (handleSearch_jsx s resp) s = s
    \<and> search_run (handleSearch_paged s resp) s = s"
proof -
  from assms have "trim (search_query s) = []" by (simp add: trim_Nil_iff)
  then show ?thesis
    by (simp add: handleSearch_def handleSearch_jsx_def handleSearch_paged_def search_run_def)
qed

text \<open>Witness for C10: a query of two spaces.\<close>

theorem handleSearch_blank_query_witness:
  "search_query search_blank = ''  ''
   \<and> handleSearch search_blank (Ok config_example) (Ok response_example) = []
   \<and> search_run (handleSearch search_blank (Ok config_example) (Ok response_example)) search_blank
       = search_blank"
proof -
  have "\<forall>c\<in>set (search_query search_blank). js_whitespace c"
    by (simp add: search_blank_def search_initial_def js_whitespace_def)
  moreover have "search_query search_blank = ''  ''"
    by (simp add: search_blank_def search_initial_def)
  ultimately show ?thesis
    using handleSearch_blank_query[of search_blank "Ok config_example" "Ok response_example"]
    by blast
qed

text \<open>
  Claim C1 at a concrete input. The page shows \<^verbatim>\<open>topK = 5\<close> and \<^verbatim>\<open>rerank = true\<close>; the
  server's configuration says \<^verbatim>\<open>top_k = 10\<close> and \<^verbatim>\<open>reranker_enabled = false\<close>.
  \<^verbatim>\<open>handleSearch\<close> of \<^verbatim>\<open>part_002\<close> fetches the configuration and sets both state
  variables, and then sends the search with \<^verbatim>\<open>top_k = 5\<close> and \<^verbatim>\<open>rerank = true\<close>: the
  values re-read are used by the next search only.
\<close>

theorem handleSearch_sends_stale_settings:
  "search_topK search_fox = 5 \<and> search_rerank search_fox = True
   \<and> cfg_search_top_k config_example = 10 \<and> cfg_search_reranker_enabled config_example = False
   \<and> handleSearch search_fox (Ok config_example) (Ok response_example)
       = [Set (SetLoading_search True), Set (SetResults []), Set (SetHasSearched True),
          Fetch (Get ''/config''), Set (SetTopK 10), Set (SetRerank False),
          Fetch (PostJson ''/search'' (JObj [(''q'', JStr ''fox''), (''top_k'', JNum 5),
            (''hybrid'', JBool True), (''rerank'', JBool True)])),
          Set (SetResults []), Set (SetSearchTime 12), Set (SetLoading_search False)]
   \<and> search_topK (search_run (handleSearch search_fox (Ok config_example) (Ok response_example))
        search_fox) = 10
   \<and> search_rerank (search_run (handleSearch search_fox (Ok config_example) (Ok response_example))
        search_fox) = False"
  by (simp add: handleSearch_def loadConfig_def searchBody_def search_fox_def search_initial_def
      config_example_def response_example_def trim_fox search_run_def search_effect_def)



section \<open>Facts about the settings page\<close>

lemma validateDatabase_tsx_eq: "validateDatabase_tsx s resp = validateDatabase s resp"
  by (simp add: validateDatabase_tsx_def validateDatabase_def)

text \<open>
  What \<^verbatim>\<open>validateDatabase\<close> does to the page, whatever the server answers: it changes
  \<^verbatim>\<open>dbValidation\<close> and \<^verbatim>\<open>validatingDb\<close> only, and its one request is the
  \<^verbatim>\<open>POST /config/validate-db\<close> with the URL.
\<close>

lemma validateDatabase_client:
  "settings_run (validateDatabase s resp) s
     = s\<lparr>settings_dbValidation := settings_dbValidation (settings_run (validateDatabase s resp) s),
          settings_validatingDb := (trim (settings_dbUrl s) = [] \<and> settings_validatingDb s)\<rparr>
   \<and> settings_dbValidation (settings_run (validateDatabase s resp) s)
     = Some (if trim (settings_dbUrl s) = [] then \<lparr>valid = False, message = ''Database URL is required''\<rparr>
             else case resp of Ok result \<Rightarrow> result
               | NotOk status statusText detail \<Rightarrow> \<lparr>valid = False, message = ''Validation failed''\<rparr>
               | Rejected msg \<Rightarrow> \<lparr>valid = False, message = msg\<rparr>)
   \<and> settings_config (settings_run (validateDatabase s resp) s) = settings_config s
   \<and> updates (settings_run (validateDatabase s resp) s) = updates s
   \<and> updates_tsx (settings_run (validateDatabase s resp) s) = updates_tsx s
   \<and> requests (validateDatabase s resp)
     = (if trim (settings_dbUrl s) = [] then []
        else [PostForm ''/config/validate-db'' [(''db_url'', FormString (settings_dbUrl s))]])
   \<and> validateDatabase_tsx s resp = validateDatabase s resp"
proof -
  have run: "settings_run (validateDatabase s resp) s
     = s\<lparr>settings_dbValidation := Some (if trim (settings_dbUrl s) = [] then \<lparr>valid = False, message = ''Database URL is required''\<rparr>
             else case resp of Ok result \<Rightarrow> result
               | NotOk status statusText detail \<Rightarrow> \<lparr>valid = False, message = ''Validation failed''\<rparr>
               | Rejected msg \<Rightarrow> \<lparr>valid = False, message = msg\<rparr>),
          settings_validatingDb := (trim (settings_dbUrl s) = [] \<and> settings_validatingDb s)\<rparr>"
    by (cases resp) (simp_all add: validateDatabase_def settings_run_def settings_effect_def)
  have req: "requests (validateDatabase s resp)
     = (if trim (settings_dbUrl s) = [] then []
        else [PostForm ''/config/validate-db'' [(''db_url'', FormString (settings_dbUrl s))]])"
    by (cases resp) (simp_all add: validateDatabase_def)
  show ?thesis
    unfolding run req by (simp add: updates_def updates_tsx_def validateDatabase_tsx_eq)
qed

text \<open>
  Claim C6. A call of \<^verbatim>\<open>validate_db_connection(url)\<close> returns a verdict
  \<open>{valid, message}\<close> and leaves the stored configuration record as it was (the server's
  side, as the specification gives it). One validation from the page leaves the stored
  record unchanged as well, and of the page's state it changes \<^verbatim>\<open>dbValidation\<close>, which
  then holds the verdict, and \<^verbatim>\<open>validatingDb\<close> only: the configuration the page holds
  (\<^verbatim>\<open>config\<close>) and every field of its form, and so the \<^verbatim>\<open>updates\<close> a later save would
  send, are the same before and after. The page's only request is the
  \<^verbatim>\<open>POST /config/validate-db\<close>; it never posts to \<^verbatim>\<open>/config\<close>.
\<close>

theorem validate_db_connection_frame:
  "fst (validate_db_connection probe url stored) = probe url
   \<and> snd (validate_db_connection probe url stored) = stored
   \<and> snd (validation_round probe s stored) = stored
   \<and> fst (validation_round probe s stored)
       = s\<lparr>settings_dbValidation :=
              Some (if trim (settings_dbUrl s) = []
                    then \<lparr>valid = False, message = ''Database URL is required''\<rparr>
                    else probe (settings_dbUrl s)),
            settings_validatingDb := (trim (settings_dbUrl s) = [] \<and> settings_validatingDb s)\<rparr>
   \<and> settings_config (fst (validation_round probe s stored)) = settings_config s
   \<and> updates (fst (validation_round probe s stored)) = updates s
   \<and> updates_tsx (fst (validation_round probe s stored)) = updates_tsx s
   \<and> settings_run (validateDatabase s resp) s
       = s\<lparr>settings_dbValidation := settings_dbValidation (settings_run (validateDatabase s resp) s),
            settings_validatingDb := (trim (settings_dbUrl s) = [] \<and> settings_validatingDb s)\<rparr>
   \<and> settings_dbValidation (settings_run (validateDatabase s resp) s) \<noteq> None
   \<and> requests (validateDatabase s resp)
       = (if trim (settings_dbUrl s) = [] then []
          else [PostForm ''/config/validate-db'' [(''db_url'', FormString (settings_dbUrl s))]])
   \<and> validateDatabase_tsx s resp = validateDatabase s resp"
proof -
  have round: "validation_round probe s stored
      = (s\<lparr>settings_dbValidation :=
              Some (if trim (settings_dbUrl s) = []
                    then \<lparr>valid = False, message = ''Database URL is required''\<rparr>
                    else probe (settings_dbUrl s)),
            settings_validatingDb := (trim (settings_dbUrl s) = [] \<and> settings_validatingDb s)\<rparr>,
         stored)"
    by (simp add: validation_round_def validate_db_connection_def validateDatabase_def
        settings_run_def settings_effect_def)
  note client = validateDatabase_client[of s resp]
  have frame: "settings_run (validateDatabase s resp) s
       = s\<lparr>settings_dbValidation := settings_dbValidation (settings_run (validateDatabase s resp) s),
            settings_validatingDb := (trim (settings_dbUrl s) = [] \<and> settings_validatingDb s)\<rparr>"
    using client by blast
  have verdict: "settings_dbValidation (settings_run (validateDatabase s resp) s) \<noteq> None"
    using client by simp
  have req: "requests (validateDatabase s resp)
       = (if trim (settings_dbUrl s) = [] then []
          else [PostForm ''/config/validate-db'' [(''db_url'', FormString (settings_dbUrl s))]])"
    using client by blast
  show ?thesis
    unfolding round using frame verdict req
    by (simp add: validate_db_connection_def updates_def updates_tsx_def validateDatabase_tsx_eq)
qed

lemma js_includes_saved: "js_includes ''Configuration saved successfully!'' ''saved''"
  by simp

text \<open>
  Claim C7, as the code has it. After a successful save, the confirmation of
  \<^verbatim>\<open>settings-page.tsx\<close> distinguishes the two categories: with ``Configuration saved
  successfully!'' it shows the note that some changes (embedding models, vector backends)
  require a server restart to take effect. The confirmation of \<^verbatim>\<open>SettingsPage.jsx\<close> is
  one blanket answer, that the service must be restarted to apply the changes. Both
  confirmations are the same whatever the form holds and whatever has changed, and both
  pages send the whole form.
\<close>

theorem saveConfig_confirmation:
  "confirmation s newConfig
     = [''Configuration saved successfully! Restart the service to apply changes.'']
   \<and> confirmation_tsx s newConfig reload
     = [''Configuration saved successfully!'', ''Note:'',
        '' Some changes (embedding models, vector backends) require server restart to take effect.'']
   \<and> requests (saveConfig s (Ok newConfig)) = [PostJson ''/config'' (updates s)]
   \<and> requests (saveConfig_tsx s (Ok newConfig) reload)
       = [PostJson ''/config'' (updates_tsx s), Post ''/config/reload'']"
proof -
  have a: "settings_message (settings_run (saveConfig s (Ok newConfig)) s)
      = ''Configuration saved successfully! Restart the service to apply changes.''"
    by (simp add: saveConfig_def settings_run_def settings_effect_def)
  have b: "settings_message (settings_run (saveConfig_tsx s (Ok newConfig) reload) s)
      = ''Configuration saved successfully!''"
    by (simp add: saveConfig_tsx_def settings_run_def settings_effect_def)
  have c: "requests (saveConfig s (Ok newConfig)) = [PostJson ''/config'' (updates s)]"
    "requests (saveConfig_tsx s (Ok newConfig) reload)
       = [PostJson ''/config'' (updates_tsx s), Post ''/config/reload'']"
    by (simp_all add: saveConfig_def saveConfig_tsx_def)
  have d: "message_alert_tsx ''Configuration saved successfully!''
      = [''Configuration saved successfully!'', ''Note:'',
        '' Some changes (embedding models, vector backends) require server restart to take effect.'']"
    unfolding message_alert_tsx_def using js_includes_saved by simp
  show ?thesis
    unfolding confirmation_def confirmation_tsx_def a b c d by (simp add: message_alert_def)
qed

text \<open>
  Claim C7, as stated, fails for \<^verbatim>\<open>SettingsPage.jsx\<close>: a save that changes only
  \<^verbatim>\<open>top_k\<close> and a save that changes only the embedding provider are both confirmed with
  the one message that the service must be restarted.
\<close>

theorem saveConfig_jsx_blanket_confirmation:
  "settings_topK settings_live_change \<noteq> settings_topK settings_loaded
   \<and> settings_embeddingProvider settings_live_change = settings_embeddingProvider settings_loaded
   \<and> settings_topK settings_restart_change = settings_topK settings_loaded
   \<and> settings_embeddingProvider settings_restart_change \<noteq> settings_embeddingProvider settings_loaded
   \<and> confirmation settings_live_change config_example
       = [''Configuration saved successfully! Restart the service to apply changes.'']
   \<and> confirmation settings_restart_change config_example
       = [''Configuration saved successfully! Restart the service to apply changes.'']"
  by (simp add: confirmation_def message_alert_def saveConfig_def settings_run_def settings_effect_def
      settings_live_change_def settings_restart_change_def settings_loaded_def)

end
